theory Spec2Isabelle
  imports Complex_Main "HOL-Library.Sublist" "HOL-Library.AList"
begin

section \<open>Python values\<close>

text \<open>
  The worker of \<^verbatim>\<open>src/entry.py\<close> handles the values that the JSON bodies of its
  upstream services decode to: \<^verbatim>\<open>None\<close>, \<^verbatim>\<open>bool\<close>, \<^verbatim>\<open>int\<close>, \<^verbatim>\<open>float\<close>, \<^verbatim>\<open>str\<close>,
  \<^verbatim>\<open>list\<close> and \<^verbatim>\<open>dict\<close> with string keys. A dict is an association list in insertion
  order (the order \<^verbatim>\<open>json.dumps\<close> writes). A \<^verbatim>\<open>float\<close> is modelled by the rational
  it denotes: rounding, infinities and NaN are outside the model. One \<^typ>\<open>char\<close>
  stands for one character of a Python \<^verbatim>\<open>str\<close>, so lengths and slices count
  characters, and text is restricted to the 256 characters of \<^typ>\<open>char\<close>.
\<close>

datatype json =
    JNull
  | JBool bool
  | JInt int
  | JFloat rat
  | JStr string
  | JList "json list"
  | JObj "(string \<times> json) list"

type_synonym dict = "(string \<times> json) list"

text \<open>
  Exceptions. \<^verbatim>\<open>ValueError\<close> is what the source raises itself, with the message it
  builds. A fault is raised by the interpreter on a dynamically ill-typed operation
  (\<^verbatim>\<open>AttributeError\<close>, \<^verbatim>\<open>TypeError\<close>, \<^verbatim>\<open>KeyError\<close>, \<^verbatim>\<open>IndexError\<close>,
  \<^verbatim>\<open>ZeroDivisionError\<close>); it records the operands, and the text of its message is left
  to the interpreter. \<^verbatim>\<open>External\<close> is an exception raised inside \<^verbatim>\<open>fetch\<close>,
  \<^verbatim>\<open>response.json()\<close>, \<^verbatim>\<open>response.text()\<close> or \<^verbatim>\<open>datetime.fromtimestamp\<close>, with its
  message. Every one of them is an \<^verbatim>\<open>Exception\<close>, so \<^verbatim>\<open>except Exception\<close> catches
  them all.
\<close>

datatype fault =
    AttributeFault json string
  | SubscriptFault json json
  | LenFault json
  | OperandFault string json json
  | ZeroDivisionFault

datatype exn =
    ValueError string
  | Fault fault
  | External string

text \<open>
  What the interpreter and the hosting platform supply: the hash of a \<^verbatim>\<open>str\<close>, the
  message text of a fault, \<^verbatim>\<open>str()\<close> of a value that is neither a \<^verbatim>\<open>str\<close>, an
  \<^verbatim>\<open>int\<close>, a \<^verbatim>\<open>bool\<close> nor \<^verbatim>\<open>None\<close>, \<^verbatim>\<open>repr\<close> of a \<^verbatim>\<open>float\<close>, the local calendar
  date of a timestamp, the clock, the dashboard page (a constant text of some 150 lines
  returned by \<^verbatim>\<open>get_dashboard_html\<close>) and the heading mark of an agent section (the
  source writes the character U+1F916 there, which \<^typ>\<open>char\<close> does not have).
\<close>

record runtime =
  hash :: "string \<Rightarrow> int"
  fault_msg :: "fault \<Rightarrow> string"
  repr_other :: "json \<Rightarrow> string"
  float_repr :: "rat \<Rightarrow> string"
  fromtimestamp_date :: "json \<Rightarrow> exn + string"
  utcnow_iso :: string
  utcnow_date :: string
  get_dashboard_html :: string
  agent_mark :: string

fun str_exn :: "runtime \<Rightarrow> exn \<Rightarrow> string" where
  "str_exn rt (ValueError m) = m"
| "str_exn rt (Fault f) = fault_msg rt f"
| "str_exn rt (External m) = m"

definition and_then :: "exn + 'a \<Rightarrow> ('a \<Rightarrow> exn + 'b) \<Rightarrow> exn + 'b" where
  "and_then r f = (case r of Inl x \<Rightarrow> Inl x | Inr v \<Rightarrow> f v)"

fun map_exn :: "('a \<Rightarrow> exn + 'b) \<Rightarrow> 'a list \<Rightarrow> exn + 'b list" where
  "map_exn f [] = Inr []"
| "map_exn f (x # xs) =
     (case f x of
        Inl e \<Rightarrow> Inl e
      | Inr y \<Rightarrow> (case map_exn f xs of Inl e \<Rightarrow> Inl e | Inr ys \<Rightarrow> Inr (y # ys)))"

subsection \<open>Truth value, \<^verbatim>\<open>dict.get\<close>, subscripts, \<^verbatim>\<open>len\<close>\<close>

fun truthy :: "json \<Rightarrow> bool" where
  "truthy JNull = False"
| "truthy (JBool b) = b"
| "truthy (JInt i) = (i \<noteq> 0)"
| "truthy (JFloat r) = (r \<noteq> 0)"
| "truthy (JStr s) = (s \<noteq> [])"
| "truthy (JList xs) = (xs \<noteq> [])"
| "truthy (JObj d) = (d \<noteq> [])"

definition dict_get :: "dict \<Rightarrow> string \<Rightarrow> json \<Rightarrow> json" where
  "dict_get d k dflt = (case map_of d k of Some v \<Rightarrow> v | None \<Rightarrow> dflt)"

fun py_get :: "json \<Rightarrow> string \<Rightarrow> json \<Rightarrow> exn + json" where
  "py_get (JObj d) k dflt = Inr (dict_get d k dflt)"
| "py_get v k dflt = Inl (Fault (AttributeFault v ''get''))"

definition in_range :: "nat \<Rightarrow> int \<Rightarrow> nat option" where
  "in_range n i =
     (let j = (if i < 0 then int n + i else i)
      in if 0 \<le> j \<and> j < int n then Some (nat j) else None)"

fun py_index :: "json \<Rightarrow> int \<Rightarrow> exn + json" where
  "py_index (JList xs) i =
     (case in_range (length xs) i of
        Some j \<Rightarrow> Inr (xs ! j)
      | None \<Rightarrow> Inl (Fault (SubscriptFault (JList xs) (JInt i))))"
| "py_index (JStr s) i =
     (case in_range (length s) i of
        Some j \<Rightarrow> Inr (JStr [s ! j])
      | None \<Rightarrow> Inl (Fault (SubscriptFault (JStr s) (JInt i))))"
| "py_index v i = Inl (Fault (SubscriptFault v (JInt i)))"

fun py_item :: "json \<Rightarrow> string \<Rightarrow> exn + json" where
  "py_item (JObj d) k =
     (case map_of d k of
        Some v \<Rightarrow> Inr v
      | None \<Rightarrow> Inl (Fault (SubscriptFault (JObj d) (JStr k))))"
| "py_item v k = Inl (Fault (SubscriptFault v (JStr k)))"

fun py_len :: "json \<Rightarrow> exn + int" where
  "py_len (JList xs) = Inr (int (length xs))"
| "py_len (JStr s) = Inr (int (length s))"
| "py_len (JObj d) = Inr (int (length d))"
| "py_len v = Inl (Fault (LenFault v))"

fun py_slice_to :: "json \<Rightarrow> nat \<Rightarrow> exn + json" where
  "py_slice_to (JStr s) n = Inr (JStr (take n s))"
| "py_slice_to (JList xs) n = Inr (JList (take n xs))"
| "py_slice_to v n = Inl (Fault (SubscriptFault v (JStr '':'')))"

subsection \<open>Numbers\<close>

datatype num = NInt int | NFloat rat

fun as_num :: "json \<Rightarrow> num option" where
  "as_num (JBool b) = Some (NInt (if b then 1 else 0))"
| "as_num (JInt i) = Some (NInt i)"
| "as_num (JFloat r) = Some (NFloat r)"
| "as_num v = None"

fun to_rat :: "num \<Rightarrow> rat" where
  "to_rat (NInt i) = of_int i"
| "to_rat (NFloat r) = r"

fun py_add :: "json \<Rightarrow> json \<Rightarrow> exn + json" where
  "py_add (JStr a) (JStr b) = Inr (JStr (a @ b))"
| "py_add (JList a) (JList b) = Inr (JList (a @ b))"
| "py_add a b =
     (case (as_num a, as_num b) of
        (Some (NInt x), Some (NInt y)) \<Rightarrow> Inr (JInt (x + y))
      | (Some x, Some y) \<Rightarrow> Inr (JFloat (to_rat x + to_rat y))
      | _ \<Rightarrow> Inl (Fault (OperandFault ''+'' a b)))"

definition py_sub :: "json \<Rightarrow> json \<Rightarrow> exn + json" where
  "py_sub a b =
     (case (as_num a, as_num b) of
        (Some (NInt x), Some (NInt y)) \<Rightarrow> Inr (JInt (x - y))
      | (Some x, Some y) \<Rightarrow> Inr (JFloat (to_rat x - to_rat y))
      | _ \<Rightarrow> Inl (Fault (OperandFault ''-'' a b)))"

definition py_truediv :: "json \<Rightarrow> json \<Rightarrow> exn + json" where
  "py_truediv a b =
     (case (as_num a, as_num b) of
        (Some x, Some y) \<Rightarrow>
          if to_rat y = 0 then Inl (Fault ZeroDivisionFault)
          else Inr (JFloat (to_rat x / to_rat y))
      | _ \<Rightarrow> Inl (Fault (OperandFault ''/'' a b)))"

definition py_mul :: "json \<Rightarrow> json \<Rightarrow> exn + json" where
  "py_mul a b =
     (case (as_num a, as_num b) of
        (Some (NInt x), Some (NInt y)) \<Rightarrow> Inr (JInt (x * y))
      | (Some x, Some y) \<Rightarrow> Inr (JFloat (to_rat x * to_rat y))
      | _ \<Rightarrow> Inl (Fault (OperandFault ''*'' a b)))"

text \<open>\<^verbatim>\<open>round(x, 2)\<close> of a float: to the nearest hundredth, ties to the even one.\<close>

definition round_half_even :: "rat \<Rightarrow> int" where
  "round_half_even r =
     (let f = \<lfloor>r\<rfloor>; d = r - of_int f
      in if d < 1 / 2 then f
         else if 1 / 2 < d then f + 1
         else if even f then f else f + 1)"

definition py_round2 :: "json \<Rightarrow> exn + json" where
  "py_round2 v =
     (case as_num v of
        Some (NInt i) \<Rightarrow> Inr (JInt i)
      | Some (NFloat r) \<Rightarrow> Inr (JFloat (of_int (round_half_even (r * 100)) / 100))
      | None \<Rightarrow> Inl (Fault (OperandFault ''round'' v (JInt 2))))"

subsection \<open>Text\<close>

definition digit :: "nat \<Rightarrow> char" where
  "digit n = ''0123456789abcdef'' ! (n mod 16)"

fun str_nat :: "nat \<Rightarrow> string" where
  "str_nat n = (if n < 10 then [digit n] else str_nat (n div 10) @ [digit (n mod 10)])"

definition str_int :: "int \<Rightarrow> string" where
  "str_int i = (if i < 0 then ''-'' @ str_nat (nat (- i)) else str_nat (nat i))"

text \<open>\<^verbatim>\<open>str(v)\<close>, as an f-string formats a value.\<close>

fun py_str :: "runtime \<Rightarrow> json \<Rightarrow> string" where
  "py_str rt (JStr s) = s"
| "py_str rt (JInt i) = str_int i"
| "py_str rt JNull = ''None''"
| "py_str rt (JBool b) = (if b then ''True'' else ''False'')"
| "py_str rt (JFloat r) = float_repr rt r"
| "py_str rt v = repr_other rt v"

text \<open>\<^verbatim>\<open>sep.join(parts)\<close>.\<close>

fun join :: "string \<Rightarrow> string list \<Rightarrow> string" where
  "join sep [] = []"
| "join sep [x] = x"
| "join sep (x # y # ys) = x @ sep @ join sep (y # ys)"

subsection \<open>\<^verbatim>\<open>json.dumps\<close>\<close>

text \<open>
  The encoder of the standard library with its defaults (\<^verbatim>\<open>ensure_ascii\<close>): inside a
  string, the quote, the backslash and every character outside the printable ASCII
  range are escaped. Without \<^verbatim>\<open>indent\<close> the separators are \<^verbatim>\<open>", "\<close> and \<^verbatim>\<open>": "\<close>;
  with \<^verbatim>\<open>indent=n\<close> every item starts on a line of its own, \<^verbatim>\<open>n\<close> spaces deeper than
  its container.
\<close>

definition hex4 :: "nat \<Rightarrow> string" where
  "hex4 n = [digit (n div 4096), digit (n div 256), digit (n div 16), digit n]"

definition esc_char :: "char \<Rightarrow> string" where
  "esc_char c =
     (if c = CHR 0x22 then [CHR 0x5C, CHR 0x22]
      else if c = CHR 0x5C then [CHR 0x5C, CHR 0x5C]
      else if c = CHR 0x0A then [CHR 0x5C, CHR ''n'']
      else if c = CHR 0x0D then [CHR 0x5C, CHR ''r'']
      else if c = CHR 0x09 then [CHR 0x5C, CHR ''t'']
      else if c = CHR 0x08 then [CHR 0x5C, CHR ''b'']
      else if c = CHR 0x0C then [CHR 0x5C, CHR ''f'']
      else if (of_char c :: nat) < 32 \<or> 126 < (of_char c :: nat)
        then [CHR 0x5C, CHR ''u''] @ hex4 (of_char c)
      else [c])"

definition json_str :: "string \<Rightarrow> string" where
  "json_str s = [CHR 0x22] @ concat (map esc_char s) @ [CHR 0x22]"

definition newline_indent :: "nat option \<Rightarrow> nat \<Rightarrow> string" where
  "newline_indent ind lvl =
     (case ind of None \<Rightarrow> [] | Some n \<Rightarrow> CHR 0x0A # replicate (n * lvl) CHR '' '')"

definition item_sep :: "nat option \<Rightarrow> nat \<Rightarrow> string" where
  "item_sep ind lvl =
     (case ind of None \<Rightarrow> '', '' | Some n \<Rightarrow> '','' @ newline_indent ind lvl)"

fun dumps :: "runtime \<Rightarrow> nat option \<Rightarrow> nat \<Rightarrow> json \<Rightarrow> string" where
  "dumps rt ind lvl JNull = ''null''"
| "dumps rt ind lvl (JBool b) = (if b then ''true'' else ''false'')"
| "dumps rt ind lvl (JInt i) = str_int i"
| "dumps rt ind lvl (JFloat r) = float_repr rt r"
| "dumps rt ind lvl (JStr s) = json_str s"
| "dumps rt ind lvl (JList xs) =
     (if xs = [] then ''[]''
      else ''['' @ newline_indent ind (Suc lvl)
           @ join (item_sep ind (Suc lvl)) (map (dumps rt ind (Suc lvl)) xs)
           @ newline_indent ind lvl @ '']'')"
| "dumps rt ind lvl (JObj d) =
     (if d = [] then ''{}''
      else ''{'' @ newline_indent ind (Suc lvl)
           @ join (item_sep ind (Suc lvl))
               (map (\<lambda>kv. json_str (fst kv) @ '': '' @ dumps rt ind (Suc lvl) (snd kv)) d)
           @ newline_indent ind lvl @ ''}'')"

definition json_dumps :: "runtime \<Rightarrow> json \<Rightarrow> string" where
  "json_dumps rt v = dumps rt None 0 v"

definition json_dumps_indent2 :: "runtime \<Rightarrow> json \<Rightarrow> string" where
  "json_dumps_indent2 rt v = dumps rt (Some 2) 0 v"

section \<open>The environment and the upstream services\<close>

text \<open>
  The worker reads five attributes of \<^verbatim>\<open>env\<close>, each through
  \<^verbatim>\<open>hasattr(env, A) and env.A\<close>. \<^const>\<open>None\<close> stands for an attribute that is missing or
  is \<^verbatim>\<open>None\<close>; the test holds for a non-empty string only.
\<close>

record env =
  SWARMS_API_KEY :: "string option"
  FMP_API_KEY :: "string option"
  MAILGUN_API_KEY :: "string option"
  MAILGUN_DOMAIN :: "string option"
  RECIPIENT_EMAIL :: "string option"

definition configured :: "string option \<Rightarrow> bool" where
  "configured a = (case a of None \<Rightarrow> False | Some s \<Rightarrow> s \<noteq> [])"

text \<open>
  What \<^verbatim>\<open>await fetch(...)\<close> gives: an exception, or a response with its \<^verbatim>\<open>ok\<close> flag,
  status, status text, and what \<^verbatim>\<open>await response.json()\<close> and
  \<^verbatim>\<open>await response.text()\<close> give in turn. The four services are black boxes: a run is
  checked against every behaviour of them. Every outbound call of a run is recorded, in
  order, with what identifies it: the symbol of a quote request, the key of a news
  request, the key and the configuration posted to the completion service, the domain and
  the key of a mail request.
\<close>

record http_response =
  ok :: bool
  status :: int
  status_text :: string
  json_body :: "exn + json"
  text_body :: "exn + string"

datatype outbound =
    QuoteCall string
  | NewsCall string
  | SwarmsCall string json
  | MailCall string string

record upstream =
  quote_api :: "string \<Rightarrow> exn + http_response"
  news_api :: "string \<Rightarrow> exn + http_response"
  swarms_api :: "string \<Rightarrow> json \<Rightarrow> exn + http_response"
  mail_api :: "string \<Rightarrow> string \<Rightarrow> exn + http_response"

section \<open>News Fetcher: \<^verbatim>\<open>fetch_market_news\<close>\<close>

definition news_error_details :: "http_response \<Rightarrow> string" where
  "news_error_details r =
     ''HTTP '' @ str_int (status r) @ '': '' @ status_text r @
     (if status r = 403 then
        '' - This usually means your API key is invalid, expired, or you've exceeded rate limits. Check your FMP_API_KEY or upgrade your plan.''
      else if status r = 401 then
        '' - Invalid API key. Please check your FMP_API_KEY configuration.''
      else if status r = 429 then
        '' - Rate limit exceeded. Please wait or upgrade your FMP plan.''
      else if 500 \<le> status r then
        '' - Server error on Financial Modeling Prep side. Try again later.''
      else [])"

text \<open>One entry of the list comprehension over \<^verbatim>\<open>news_data[:5]\<close>.\<close>

definition process_article :: "json \<Rightarrow> exn + json" where
  "process_article article =
     and_then (py_get article ''title'' (JStr ''No title'')) (\<lambda>title.
     and_then (py_get article ''text'' JNull) (\<lambda>has_text.
     and_then
       (if truthy has_text then
          and_then (py_get article ''text'' (JStr [])) (\<lambda>t.
          and_then (py_slice_to t 300) (\<lambda>cut. py_add cut (JStr ''...'')))
        else Inr (JStr ''No content available'')) (\<lambda>text.
     and_then (py_get article ''publishedDate'' (JStr ''Unknown date'')) (\<lambda>published.
     and_then (py_get article ''symbol'' (JStr ''N/A'')) (\<lambda>symbol.
     and_then (py_get article ''url'' (JStr ''#'')) (\<lambda>url.
     Inr (JObj [(''title'', title), (''text'', text), (''publishedDate'', published),
                (''symbol'', symbol), (''url'', url)])))))))"

text \<open>
  The part of the \<^verbatim>\<open>try\<close> block after \<^verbatim>\<open>news_data = await news_response.json()\<close>.
  The test \<^verbatim>\<open>hasattr(news_data, 'error')\<close> comes first in the source; no value of
  \<^typ>\<open>json\<close> has an attribute of that name (a key of a dict is not an attribute), so
  its branch is never taken.
\<close>

definition news_of_payload :: "json \<Rightarrow> exn + json" where
  "news_of_payload news_data =
     (case news_data of
        JList xs \<Rightarrow>
          if xs \<noteq> [] then
            and_then (map_exn process_article (take 5 xs)) (\<lambda>processed_news.
            Inr (JList processed_news))
          else Inr (JStr ''Market news unavailable: No articles returned from API. This could indicate rate limits reached or no news available for selected tickers.'')
      | _ \<Rightarrow> Inr (JStr ''Market news unavailable: Invalid data format received from API''))"

definition fetch_market_news_try :: "env \<Rightarrow> upstream \<Rightarrow> (exn + json) \<times> outbound list" where
  "fetch_market_news_try e up =
     (if \<not> configured (FMP_API_KEY e) then
        (Inr (JStr ''Market news unavailable: FMP_API_KEY not configured. Sign up at https://financialmodelingprep.com/developer/docs''), [])
      else
        (and_then (news_api up (the (FMP_API_KEY e))) (\<lambda>news_response.
           if \<not> ok news_response then Inl (ValueError (news_error_details news_response))
           else and_then (json_body news_response) news_of_payload),
         [NewsCall (the (FMP_API_KEY e))]))"

text \<open>The \<^verbatim>\<open>except Exception as error\<close> handler.\<close>

definition news_failure :: "runtime \<Rightarrow> exn \<Rightarrow> string" where
  "news_failure rt error =
     (if sublist ''403'' (str_exn rt error) then
        ''Market news unavailable: Access forbidden. Please check your FMP_API_KEY is valid and not rate-limited.''
      else if sublist ''401'' (str_exn rt error) then
        ''Market news unavailable: Invalid API key. Please verify your FMP_API_KEY.''
      else if sublist ''429'' (str_exn rt error) then
        ''Market news unavailable: Rate limit exceeded. Please wait or upgrade your Financial Modeling Prep plan.''
      else ''Market news unavailable: '' @ str_exn rt error)"

definition fetch_market_news :: "runtime \<Rightarrow> env \<Rightarrow> upstream \<Rightarrow> (exn + json) \<times> outbound list" where
  "fetch_market_news rt e up =
     (case fetch_market_news_try e up of
        (Inr v, calls) \<Rightarrow> (Inr v, calls)
      | (Inl error, calls) \<Rightarrow> (Inr (JStr (news_failure rt error)), calls))"

section \<open>Quote Fetcher: \<^verbatim>\<open>fetch_market_data\<close>\<close>

definition symbols :: "string list" where
  "symbols = [''SPY'', ''QQQ'', ''AAPL'', ''MSFT'', ''TSLA'', ''NVDA'']"

text \<open>
  The loop \<^verbatim>\<open>while last_index >= 0 and (not closes or closes[last_index] is None)\<close>,
  which counts \<^verbatim>\<open>last_index\<close> down. The subscript raises when \<^verbatim>\<open>closes\<close> is shorter
  than the index asks, or is not a sequence.
\<close>

function last_valid :: "json \<Rightarrow> int \<Rightarrow> exn + int" where
  "last_valid closes last_index =
     (if 0 \<le> last_index then
        (if \<not> truthy closes then last_valid closes (last_index - 1)
         else (case py_index closes last_index of
                 Inl error \<Rightarrow> Inl error
               | Inr c \<Rightarrow>
                   if c = JNull then last_valid closes (last_index - 1)
                   else Inr last_index))
      else Inr last_index)"
  by pat_completeness auto
termination
  by (relation "measure (\<lambda>(closes, last_index). nat (last_index + 1))") auto

text \<open>\<^verbatim>\<open>arr[last_index] if arr and last_index < len(arr) else dflt\<close>.\<close>

definition bar_value :: "json \<Rightarrow> int \<Rightarrow> json \<Rightarrow> exn + json" where
  "bar_value arr last_index dflt =
     (if truthy arr then
        and_then (py_len arr) (\<lambda>n.
        if last_index < n then py_index arr last_index else Inr dflt)
      else Inr dflt)"

text \<open>
  From \<^verbatim>\<open>current_price = meta.get('regularMarketPrice', close)\<close> to the entry stored
  in \<^verbatim>\<open>market_data[symbol]\<close>. \<^verbatim>\<open>round(rsi, 1)\<close> of the \<^verbatim>\<open>int\<close> \<^verbatim>\<open>rsi\<close> is that
  \<^verbatim>\<open>int\<close>.
\<close>

definition make_quote ::
  "runtime \<Rightarrow> string \<Rightarrow> json \<Rightarrow> json \<Rightarrow> int \<Rightarrow> json \<Rightarrow> json \<Rightarrow> json \<Rightarrow> json \<Rightarrow> json
     \<Rightarrow> exn + dict" where
  "make_quote rt symbol meta timestamps last_index close open_price high low volume =
     and_then (py_get meta ''regularMarketPrice'' close) (\<lambda>current_price.
     and_then (py_get meta ''chartPreviousClose'' open_price) (\<lambda>chart_previous_close.
     and_then (py_get meta ''previousClose'' chart_previous_close) (\<lambda>previous_close.
     and_then (py_sub current_price previous_close) (\<lambda>day_change.
     and_then
       (if truthy previous_close then
          and_then (py_truediv day_change previous_close) (\<lambda>ratio.
          and_then (py_mul ratio (JInt 100)) py_round2)
        else Inr (JInt 0)) (\<lambda>day_change_percent.
     and_then
       (if truthy timestamps then
          and_then (py_index timestamps last_index) (\<lambda>ts.
          and_then (fromtimestamp_date rt ts) (\<lambda>d. Inr (JStr d)))
        else Inr (JStr (utcnow_date rt))) (\<lambda>date.
     and_then (py_get meta ''currency'' (JStr ''USD'')) (\<lambda>currency.
     and_then (py_get meta ''marketState'' (JStr ''REGULAR'')) (\<lambda>market_state.
     and_then (py_get meta ''fiftyTwoWeekHigh'' JNull) (\<lambda>week_high.
     and_then (py_get meta ''fiftyTwoWeekLow'' JNull) (\<lambda>week_low.
     Inr [(''price'', current_price),
          (''open'', open_price),
          (''high'', high),
          (''low'', low),
          (''volume'', volume),
          (''change'', day_change),
          (''change_percent'', day_change_percent),
          (''rsi'', JInt (50 + (hash rt symbol mod 30 - 15))),
          (''date'', date),
          (''currency'', currency),
          (''marketState'', market_state),
          (''fiftyTwoWeekHigh'', week_high),
          (''fiftyTwoWeekLow'', week_low),
          (''error'', JNull)]))))))))))"

text \<open>From \<^verbatim>\<open>timestamps = result.get('timestamp', [])\<close> to the latest bar.\<close>

definition latest_bar :: "runtime \<Rightarrow> string \<Rightarrow> json \<Rightarrow> json \<Rightarrow> json \<Rightarrow> exn + dict" where
  "latest_bar rt symbol result meta quote =
     and_then (py_get result ''timestamp'' (JList [])) (\<lambda>timestamps.
     and_then (py_get quote ''open'' (JList [])) (\<lambda>opens.
     and_then (py_get quote ''high'' (JList [])) (\<lambda>highs.
     and_then (py_get quote ''low'' (JList [])) (\<lambda>lows.
     and_then (py_get quote ''close'' (JList [])) (\<lambda>closes.
     and_then (py_get quote ''volume'' (JList [])) (\<lambda>volumes.
     if \<not> truthy timestamps then Inl (ValueError ''No timestamp data available'')
     else
       and_then (py_len timestamps) (\<lambda>n.
       and_then (last_valid closes (n - 1)) (\<lambda>last_index.
       if last_index < 0 then Inl (ValueError ''No valid price data found'')
       else
         and_then (bar_value closes last_index (JInt 0)) (\<lambda>close.
         and_then (bar_value opens last_index close) (\<lambda>open_price.
         and_then (bar_value highs last_index close) (\<lambda>high.
         and_then (bar_value lows last_index close) (\<lambda>low.
         and_then (bar_value volumes last_index (JInt 0)) (\<lambda>volume.
         make_quote rt symbol meta timestamps last_index close open_price high low
           volume)))))))))))))"

text \<open>From \<^verbatim>\<open>result = response_data['chart']['result'][0]\<close> on.\<close>

definition quote_of_result :: "runtime \<Rightarrow> string \<Rightarrow> json \<Rightarrow> exn + dict" where
  "quote_of_result rt symbol result =
     and_then (py_get result ''meta'' (JObj [])) (\<lambda>meta.
     and_then (py_get result ''indicators'' (JObj [])) (\<lambda>indicators.
     and_then (py_get indicators ''quote'' (JList [JObj []])) (\<lambda>quotes.
     and_then (py_index quotes 0) (\<lambda>quote.
     if \<not> truthy quote \<or> \<not> truthy meta then Inl (ValueError ''Missing quote or meta data'')
     else latest_bar rt symbol result meta quote))))"

text \<open>The checks on the decoded body \<^verbatim>\<open>response_data\<close>.\<close>

definition quote_of_payload :: "runtime \<Rightarrow> string \<Rightarrow> json \<Rightarrow> exn + dict" where
  "quote_of_payload rt symbol response_data =
     and_then (py_get response_data ''chart'' (JObj [])) (\<lambda>chart.
     and_then (py_get chart ''error'' JNull) (\<lambda>chart_error.
     if truthy chart_error then
       and_then (py_item response_data ''chart'') (\<lambda>c.
       and_then (py_item c ''error'') (\<lambda>err.
       and_then (py_item err ''description'') (\<lambda>description.
       Inl (ValueError (''API Error: '' @ py_str rt description)))))
     else
       and_then (py_get response_data ''chart'' (JObj [])) (\<lambda>chart'.
       and_then (py_get chart' ''result'' JNull) (\<lambda>chart_result.
       if \<not> truthy chart_result then Inl (ValueError ''No chart data in response'')
       else
         and_then (py_item response_data ''chart'') (\<lambda>c.
         and_then (py_item c ''result'') (\<lambda>results.
         and_then (py_index results 0) (\<lambda>result.
         quote_of_result rt symbol result)))))))"

text \<open>The \<^verbatim>\<open>try\<close> block of one symbol.\<close>

definition fetch_quote_try :: "runtime \<Rightarrow> upstream \<Rightarrow> string \<Rightarrow> exn + dict" where
  "fetch_quote_try rt up symbol =
     and_then (quote_api up symbol) (\<lambda>price_response.
     if \<not> ok price_response then
       Inl (ValueError (''HTTP '' @ str_int (status price_response) @ '': ''
                        @ status_text price_response))
     else and_then (json_body price_response) (quote_of_payload rt symbol))"

text \<open>One iteration: the entry, or the error marker of the \<^verbatim>\<open>except\<close> handler.\<close>

definition fetch_quote :: "runtime \<Rightarrow> upstream \<Rightarrow> string \<Rightarrow> dict" where
  "fetch_quote rt up symbol =
     (case fetch_quote_try rt up symbol of
        Inr entry \<Rightarrow> entry
      | Inl error \<Rightarrow> [(''error'', JStr (''Failed to fetch data: '' @ str_exn rt error))])"

text \<open>
  The \<^verbatim>\<open>for symbol in symbols\<close> loop: the state is \<^verbatim>\<open>market_data\<close> and the calls
  made so far; \<^verbatim>\<open>market_data[symbol] = ...\<close> is the update of a dict.
\<close>

fun fetch_loop ::
  "runtime \<Rightarrow> upstream \<Rightarrow> string list \<Rightarrow> (string \<times> dict) list \<times> outbound list
     \<Rightarrow> (string \<times> dict) list \<times> outbound list" where
  "fetch_loop rt up [] st = st"
| "fetch_loop rt up (symbol # rest) (market_data, calls) =
     fetch_loop rt up rest
       (AList.update symbol (fetch_quote rt up symbol) market_data, calls @ [QuoteCall symbol])"

definition fetch_market_data :: "runtime \<Rightarrow> upstream \<Rightarrow> (string \<times> dict) list \<times> outbound list" where
  "fetch_market_data rt up = fetch_loop rt up symbols ([], [])"

section \<open>Report Notifier: \<^verbatim>\<open>send_email_report\<close>\<close>

text \<open>
  The subject line of movers is built before the request is sent, inside the \<^verbatim>\<open>try\<close>
  block, so a failure there means that no request is sent. \<^verbatim>\<open>float(x)\<close> of a number
  is that number; of a \<^verbatim>\<open>str\<close> it would parse the text, a case left as a fault here.
  The source builds the form data and then does not attach it to the request.
\<close>

definition mover :: "runtime \<Rightarrow> string \<times> dict \<Rightarrow> exn + string list" where
  "mover rt entry =
     (case entry of (symbol, data) \<Rightarrow>
        if truthy (dict_get data ''change_percent'' JNull) then
          and_then (py_item (JObj data) ''change_percent'') (\<lambda>cp.
          (case as_num cp of
             None \<Rightarrow> Inl (Fault (OperandFault ''float'' cp JNull))
           | Some x \<Rightarrow>
               if 2 < \<bar>to_rat x\<bar> then
                 and_then (py_item (JObj data) ''change_percent'') (\<lambda>shown.
                 Inr [symbol @ '': '' @ py_str rt shown @ ''%''])
               else Inr []))
        else Inr [])"

definition movers :: "runtime \<Rightarrow> (string \<times> dict) list \<Rightarrow> exn + string" where
  "movers rt market_data =
     and_then (map_exn (mover rt) market_data) (\<lambda>parts. Inr (join '', '' (concat parts)))"

definition send_email_report ::
  "runtime \<Rightarrow> env \<Rightarrow> upstream \<Rightarrow> string \<Rightarrow> (string \<times> dict) list \<Rightarrow> bool \<times> outbound list" where
  "send_email_report rt e up analysis market_data =
     (if \<not> (configured (MAILGUN_API_KEY e) \<and> configured (MAILGUN_DOMAIN e)
             \<and> configured (RECIPIENT_EMAIL e)) then (False, [])
      else
        (case movers rt market_data of
           Inl error \<Rightarrow> (False, [])
         | Inr subject_movers \<Rightarrow>
             ((case mail_api up (the (MAILGUN_DOMAIN e)) (the (MAILGUN_API_KEY e)) of
                 Inl error \<Rightarrow> False
               | Inr response \<Rightarrow> ok response),
              [MailCall (the (MAILGUN_DOMAIN e)) (the (MAILGUN_API_KEY e))])))"

section \<open>Orchestrator: \<^verbatim>\<open>handle_stock_analysis\<close>\<close>

definition valid_symbols :: "(string \<times> dict) list \<Rightarrow> string list" where
  "valid_symbols market_data =
     map fst (filter (\<lambda>(symbol, data). \<not> truthy (dict_get data ''error'' JNull)) market_data)"

definition market_data_json :: "(string \<times> dict) list \<Rightarrow> json" where
  "market_data_json market_data = JObj (map (\<lambda>(symbol, data). (symbol, JObj data)) market_data)"

text \<open>
  Step 2. The source wraps the call of \<^verbatim>\<open>fetch_market_news\<close> in a \<^verbatim>\<open>try\<close> of its own.
\<close>

definition news_step :: "runtime \<Rightarrow> env \<Rightarrow> upstream \<Rightarrow> json \<times> outbound list" where
  "news_step rt e up =
     (case fetch_market_news rt e up of
        (Inr market_news, calls) \<Rightarrow> (market_news, calls)
      | (Inl error, calls) \<Rightarrow>
          (JStr ''Market news unavailable due to API error. Analysis will continue with stock data only.'',
           calls))"

text \<open>\<^verbatim>\<open>isinstance(market_news, str) and 'unavailable' in market_news\<close>.\<close>

fun news_is_unavailable :: "json \<Rightarrow> bool" where
  "news_is_unavailable (JStr s) = sublist ''unavailable'' s"
| "news_is_unavailable v = False"

text \<open>The third interpolation of the task: the status line, or the serialised news.\<close>

fun news_block :: "runtime \<Rightarrow> json \<Rightarrow> string" where
  "news_block rt (JStr s) =
     (if sublist ''unavailable'' s then ''NEWS STATUS: '' @ s
      else ''MARKET NEWS:\<newline>'' @ json_dumps_indent2 rt (JStr s))"
| "news_block rt v = ''MARKET NEWS:\<newline>'' @ json_dumps_indent2 rt v"

definition analysis_task :: "runtime \<Rightarrow> (string \<times> dict) list \<Rightarrow> json \<Rightarrow> string" where
  "analysis_task rt market_data market_news =
     ''Analyze the following real market data''
     @ (if \<not> news_is_unavailable market_news then '' and news'' else [])
     @ '':\<newline>\<newline>MARKET DATA:\<newline>''
     @ json_dumps_indent2 rt (market_data_json market_data)
     @ ''\<newline>\<newline>''
     @ news_block rt market_news
     @ ''\<newline>\<newline>Provide comprehensive analysis with:\<newline>1. Technical analysis with key levels and trends\<newline>2. Fundamental analysis ''
     @ (if \<not> news_is_unavailable market_news then ''incorporating news catalysts''
        else ''based on price action and market structure'')
     @ ''\<newline>3. Trading recommendations with entry/exit points\<newline>4. Risk assessment and position sizing\<newline>5. Key levels to watch for tomorrow's session''"

definition technical_prompt :: string where
  "technical_prompt = ''You are a professional technical analyst. Analyze the provided real market data:\<newline>            - Calculate key technical indicators (RSI, MACD, Moving Averages)\<newline>            - Identify support and resistance levels\<newline>            - Determine market trends and momentum\<newline>            - Provide trading signals and price targets\<newline>            Format your analysis professionally with specific price levels.''"

definition fundamental_prompt :: string where
  "fundamental_prompt = ''You are a fundamental market analyst. Using the provided market data and any available news:\<newline>            - Analyze company fundamentals and market conditions\<newline>            - Evaluate economic indicators and market sentiment\<newline>            - Assess sector rotation and value opportunities\<newline>            - Identify risks and catalysts\<newline>            - If news data is unavailable, focus on technical patterns and historical data\<newline>            Provide investment recommendations with risk assessment.''"

definition swarm_config :: "runtime \<Rightarrow> (string \<times> dict) list \<Rightarrow> json \<Rightarrow> json" where
  "swarm_config rt market_data market_news =
     JObj [(''name'', JStr ''Real-Time Stock Analysis''),
           (''description'', JStr ''Live market data analysis with AI agents''),
           (''agents'', JList [
              JObj [(''agent_name'', JStr ''Technical Analyst''),
                    (''system_prompt'', JStr technical_prompt),
                    (''model_name'', JStr ''gpt-4o-mini''),
                    (''max_tokens'', JInt 1500),
                    (''temperature'', JFloat (2 / 10))],
              JObj [(''agent_name'', JStr ''Fundamental Analyst''),
                    (''system_prompt'', JStr fundamental_prompt),
                    (''model_name'', JStr ''gpt-4o-mini''),
                    (''max_tokens'', JInt 1500),
                    (''temperature'', JFloat (3 / 10))]]),
           (''swarm_type'', JStr ''ConcurrentWorkflow''),
           (''task'', JStr (analysis_task rt market_data market_news)),
           (''max_loops'', JInt 1)]"

text \<open>
  \<^verbatim>\<open>result.get(section, {}).get('billing_info', {}).get('total_cost')\<close>, and the
  \<^verbatim>\<open>or\<close> of the two sections: the first operand when it is true, the second otherwise.
\<close>

definition billing_cost :: "json \<Rightarrow> string \<Rightarrow> exn + json" where
  "billing_cost result section =
     and_then (py_get result section (JObj [])) (\<lambda>part.
     and_then (py_get part ''billing_info'' (JObj [])) (\<lambda>billing_info.
     py_get billing_info ''total_cost'' JNull))"

definition extract_cost :: "json \<Rightarrow> exn + json" where
  "extract_cost result =
     and_then (billing_cost result ''usage'') (\<lambda>first_cost.
     if truthy first_cost then Inr first_cost else billing_cost result ''metadata'')"

text \<open>One section of the formatted analysis, for one element of a list output.\<close>

definition agent_section :: "runtime \<Rightarrow> json \<Rightarrow> exn + string" where
  "agent_section rt agent =
     and_then (py_get agent ''agent_name'' (JStr ''AI Agent'')) (\<lambda>agent_name.
     and_then (py_get agent ''role'' agent_name) (\<lambda>role.
     and_then (py_get agent ''response'' (JStr [])) (\<lambda>response.
     and_then (py_get agent ''content'' response) (\<lambda>content.
     Inr (''## '' @ agent_mark rt @ '' '' @ py_str rt role @ ''\<newline>\<newline>''
          @ py_str rt content @ ''\<newline>\<newline>'' @ replicate 80 CHR ''=''
          @ ''\<newline>'')))))"

definition format_analysis :: "runtime \<Rightarrow> json \<Rightarrow> exn + string" where
  "format_analysis rt output =
     (case output of
        JList agents \<Rightarrow>
          and_then (map_exn (agent_section rt) agents) (\<lambda>sections.
          Inr (join ''\<newline>'' sections))
      | JStr s \<Rightarrow> Inr s
      | _ \<Rightarrow> Inr (json_dumps_indent2 rt output))"

text \<open>From the response of the completion service to the analysis and its cost.\<close>

definition read_analysis :: "runtime \<Rightarrow> http_response \<Rightarrow> exn + string \<times> json" where
  "read_analysis rt swarms_response =
     (if \<not> ok swarms_response then
        and_then (text_body swarms_response) (\<lambda>error_text.
        Inl (ValueError (''Swarms API error: '' @ str_int (status swarms_response) @ '' - ''
                         @ error_text)))
      else
        and_then (json_body swarms_response) (\<lambda>result.
        and_then (py_get result ''output'' JNull) (\<lambda>output.
        if \<not> truthy output then Inl (ValueError ''No analysis output received from Swarms API'')
        else
          and_then (extract_cost result) (\<lambda>cost.
          and_then (py_item result ''output'') (\<lambda>out.
          and_then (format_analysis rt out) (\<lambda>formatted_analysis.
          Inr (formatted_analysis, cost)))))))"

text \<open>The \<^verbatim>\<open>try\<close> block, with the outbound calls it has made when it ends.\<close>

definition handle_stock_analysis_try ::
  "runtime \<Rightarrow> env \<Rightarrow> upstream \<Rightarrow> (exn + json) \<times> outbound list" where
  "handle_stock_analysis_try rt e up =
     (if \<not> configured (SWARMS_API_KEY e) then
        (Inl (ValueError ''SWARMS_API_KEY is required''), [])
      else
        (case fetch_market_data rt up of (market_data, quote_calls) \<Rightarrow>
           if valid_symbols market_data = [] then
             (Inl (ValueError ''No valid market data retrieved''), quote_calls)
           else
             (case news_step rt e up of (market_news, news_calls) \<Rightarrow>
                (let config = swarm_config rt market_data market_news;
                     calls = quote_calls @ news_calls
                             @ [SwarmsCall (the (SWARMS_API_KEY e)) config]
                 in (case and_then (swarms_api up (the (SWARMS_API_KEY e)) config)
                            (read_analysis rt) of
                       Inl error \<Rightarrow> (Inl error, calls)
                     | Inr (formatted_analysis, cost) \<Rightarrow>
                         (Inr (JObj [(''success'', JBool True),
                                     (''analysis'', JStr formatted_analysis),
                                     (''symbolsAnalyzed'',
                                        JInt (int (length (valid_symbols market_data)))),
                                     (''cost'', cost)]),
                          calls @ (if configured (MAILGUN_API_KEY e)
                                      \<and> configured (MAILGUN_DOMAIN e)
                                      \<and> configured (RECIPIENT_EMAIL e)
                                   then snd (send_email_report rt e up formatted_analysis
                                               market_data)
                                   else [])))))))"

definition handle_stock_analysis ::
  "runtime \<Rightarrow> env \<Rightarrow> upstream \<Rightarrow> (exn + json) \<times> outbound list" where
  "handle_stock_analysis rt e up =
     (case handle_stock_analysis_try rt e up of
        (Inr result, calls) \<Rightarrow> (Inr result, calls)
      | (Inl error, calls) \<Rightarrow>
          (Inr (JObj [(''success'', JBool False), (''error'', JStr (str_exn rt error))]),
           calls))"

section \<open>Request Router: \<^verbatim>\<open>on_fetch\<close>\<close>

record response =
  resp_body :: string
  resp_status :: int
  resp_headers :: "(string \<times> string) list"

text \<open>
  \<^verbatim>\<open>url.split('?')[0].split('/')[-1] if '/' in url else ''\<close>: what follows the last
  slash of the part of the URL before its first question mark.
\<close>

definition request_path :: "string \<Rightarrow> string" where
  "request_path url =
     (if CHR ''/'' \<in> set url then
        rev (takeWhile (\<lambda>c. c \<noteq> CHR ''/'') (rev (takeWhile (\<lambda>c. c \<noteq> CHR ''?'') url)))
      else [])"

definition on_fetch :: "runtime \<Rightarrow> env \<Rightarrow> upstream \<Rightarrow> string \<Rightarrow> response \<times> outbound list" where
  "on_fetch rt e up url =
     (let path = request_path url in
      if path = [] then
        (\<lparr>resp_body = get_dashboard_html rt, resp_status = 200,
          resp_headers = [(''Content-Type'', ''text/html; charset=utf-8''),
                          (''Cache-Control'', ''public, max-age=300'')]\<rparr>, [])
      else if path = ''trigger'' then
        (case handle_stock_analysis rt e up of
           (Inr result, calls) \<Rightarrow>
             (\<lparr>resp_body = json_dumps rt (JObj [
                  (''message'', JStr ''Stock analysis triggered manually''),
                  (''timestamp'', JStr (utcnow_iso rt @ ''Z'')),
                  (''result'', result)]),
               resp_status = 200,
               resp_headers = [(''Content-Type'', ''application/json'')]\<rparr>, calls)
         | (Inl error, calls) \<Rightarrow>
             (\<lparr>resp_body = json_dumps rt (JObj [
                  (''error'', JStr ''Failed to trigger analysis''),
                  (''message'', JStr (str_exn rt error)),
                  (''timestamp'', JStr (utcnow_iso rt @ ''Z''))]),
               resp_status = 500,
               resp_headers = [(''Content-Type'', ''application/json'')]\<rparr>, calls))
      else if path = ''status'' then
        (\<lparr>resp_body = json_dumps rt (JObj [
             (''status'', JStr ''active''),
             (''timestamp'', JStr (utcnow_iso rt @ ''Z'')),
             (''service'', JStr ''Python Stock Analysis Agent''),
             (''version'', JStr ''1.0.0'')]),
          resp_status = 200,
          resp_headers = [(''Content-Type'', ''application/json'')]\<rparr>, [])
      else (\<lparr>resp_body = ''Not Found'', resp_status = 404, resp_headers = []\<rparr>, []))"

section \<open>Sample behaviours\<close>

text \<open>
  Concrete interpreters, environments and upstream behaviours, at which the theorems
  below are instantiated.
\<close>

definition sample_runtime :: runtime where
  "sample_runtime =
     \<lparr>hash = (\<lambda>s. int (length s)),
      fault_msg = (\<lambda>f. ''fault''),
      repr_other = (\<lambda>v. ''?''),
      float_repr = (\<lambda>r. ''1.0''),
      fromtimestamp_date =
        (\<lambda>v. case as_num v of
               None \<Rightarrow> Inl (External ''an integer is required'')
             | Some x \<Rightarrow> Inr ''2024-01-02''),
      utcnow_iso = ''2024-01-02T03:04:05'',
      utcnow_date = ''2024-01-02'',
      get_dashboard_html = ''<html></html>'',
      agent_mark = ''*''\<rparr>"

definition http_ok :: "json \<Rightarrow> http_response" where
  "http_ok v =
     \<lparr>ok = True, status = 200, status_text = ''OK'', json_body = Inr v, text_body = Inr []\<rparr>"

definition http_error :: "int \<Rightarrow> string \<Rightarrow> http_response" where
  "http_error code reason =
     \<lparr>ok = False, status = code, status_text = reason,
      json_body = Inl (External ''Unexpected end of JSON input''), text_body = Inr []\<rparr>"

definition env_no_key :: env where
  "env_no_key =
     \<lparr>SWARMS_API_KEY = Some [], FMP_API_KEY = None, MAILGUN_API_KEY = None,
      MAILGUN_DOMAIN = None, RECIPIENT_EMAIL = None\<rparr>"

definition upstream_down :: upstream where
  "upstream_down =
     \<lparr>quote_api = (\<lambda>symbol. Inr (http_error 404 ''Not Found'')),
      news_api = (\<lambda>key. Inl (External ''Network connection lost'')),
      swarms_api = (\<lambda>key config. Inl (External ''Network connection lost'')),
      mail_api = (\<lambda>domain key. Inl (External ''Network connection lost''))\<rparr>"

text \<open>
  The path of a request in the sense of the table of inbound paths: what follows the host
  in the URL, up to the query or the fragment.
\<close>

fun after_slashes :: "string \<Rightarrow> string" where
  "after_slashes (a # b # rest) =
     (if a = CHR ''/'' \<and> b = CHR ''/'' then rest else after_slashes (b # rest))"
| "after_slashes s = []"

definition url_pathname :: "string \<Rightarrow> string" where
  "url_pathname url =
     takeWhile (\<lambda>c. c \<noteq> CHR ''?'' \<and> c \<noteq> CHR ''#'')
       (dropWhile (\<lambda>c. c \<noteq> CHR ''/'') (after_slashes url))"

text \<open>
  What the News Fetcher promises: a list of at most five records with the five fields of a
  news article, or a text that contains \<^verbatim>\<open>unavailable\<close>.
\<close>

fun is_news_article :: "json \<Rightarrow> bool" where
  "is_news_article (JObj d) =
     (map fst d = [''title'', ''text'', ''publishedDate'', ''symbol'', ''url''])"
| "is_news_article v = False"

fun news_contract :: "json \<Rightarrow> bool" where
  "news_contract (JList arts) = (length arts \<le> 5 \<and> list_all is_news_article arts)"
| "news_contract (JStr s) = sublist ''unavailable'' s"
| "news_contract v = False"

text \<open>
  The rule for the \<^verbatim>\<open>text\<close> field of a returned article \<open>a\<close>, given the article of
  the provider it was made from.
\<close>

definition article_text :: "json \<Rightarrow> json" where
  "article_text a = (case a of JObj d \<Rightarrow> dict_get d ''text'' JNull | _ \<Rightarrow> JNull)"

definition text_rule :: "json \<Rightarrow> json \<Rightarrow> bool" where
  "text_rule article a =
     (case (py_get article ''text'' JNull, article_text a) of
        (Inr t, JStr s) \<Rightarrow>
          length s \<le> 303 \<and>
          (if truthy t then
             suffix ''...'' s \<and> (case t of JStr u \<Rightarrow> s = take 300 u @ ''...'' | _ \<Rightarrow> False)
           else s = ''No content available'')
      | _ \<Rightarrow> False)"

definition sample_env :: env where
  "sample_env =
     \<lparr>SWARMS_API_KEY = Some ''sk-1'', FMP_API_KEY = Some ''fmp-1'', MAILGUN_API_KEY = None,
      MAILGUN_DOMAIN = None, RECIPIENT_EMAIL = None\<rparr>"

definition sample_news :: "json list" where
  "sample_news =
     [JObj [(''title'', JStr ''Rates on hold''), (''text'', JStr ''The bank held rates.''),
            (''symbol'', JStr ''AAPL'')],
      JObj [(''title'', JStr ''Chip demand''), (''text'', JStr []), (''url'', JStr ''https://n.example/2'')]]"

definition upstream_with_news :: upstream where
  "upstream_with_news = upstream_down\<lparr>news_api := (\<lambda>key. Inr (http_ok (JList sample_news)))\<rparr>"

definition sample_chart :: json where
  "sample_chart =
     JObj [(''chart'', JObj [
       (''result'', JList [JObj [
          (''meta'', JObj [(''currency'', JStr ''USD''),
                           (''regularMarketPrice'', JInt 101),
                           (''previousClose'', JInt 100)]),
          (''timestamp'', JList [JInt 1704186000, JInt 1704186060]),
          (''indicators'', JObj [(''quote'', JList [JObj [
             (''open'', JList [JInt 99, JNull]),
             (''high'', JList [JInt 102, JNull]),
             (''low'', JList [JInt 98, JNull]),
             (''close'', JList [JInt 100, JInt 101]),
             (''volume'', JList [JInt 5000, JNull])]])])]]),
       (''error'', JNull)])]"

definition upstream_spy_only :: upstream where
  "upstream_spy_only =
     upstream_down\<lparr>quote_api :=
       (\<lambda>symbol. if symbol = ''SPY'' then Inr (http_ok sample_chart)
                 else Inr (http_error 404 ''Not Found''))\<rparr>"

text \<open>
  The invariant of a ticker quote in the words of the data model: exactly one of "all
  price fields populated, and no error" and "error populated" holds. A field is populated
  when the entry has it and it is not \<^verbatim>\<open>None\<close>.
\<close>

definition populated :: "dict \<Rightarrow> string \<Rightarrow> bool" where
  "populated q k = (case map_of q k of None \<Rightarrow> False | Some v \<Rightarrow> v \<noteq> JNull)"

definition price_fields :: "string list" where
  "price_fields = [''price'', ''open'', ''high'', ''low'', ''volume'', ''change'', ''change_percent'']"

definition ticker_quote_invariant :: "dict \<Rightarrow> bool" where
  "ticker_quote_invariant q =
     ((list_all (populated q) price_fields \<and> \<not> populated q ''error'')
      \<noteq> populated q ''error'')"

definition sample_quote :: dict where
  "sample_quote =
     [(''price'', JInt 101), (''open'', JNull), (''high'', JNull), (''low'', JNull),
      (''volume'', JNull), (''change'', JInt 1), (''change_percent'', JFloat 1),
      (''rsi'', JInt 38), (''date'', JStr ''2024-01-02''), (''currency'', JStr ''USD''),
      (''marketState'', JStr ''REGULAR''), (''fiftyTwoWeekHigh'', JNull),
      (''fiftyTwoWeekLow'', JNull), (''error'', JNull)]"




section \<open>Properties\<close>

subsection \<open>Sequencing\<close>

lemma and_then_Inr [simp]: "and_then (Inr v) f = f v"
  by (simp add: and_then_def)

lemma and_then_Inl [simp]: "and_then (Inl x) f = Inl x"
  by (simp add: and_then_def)

lemma and_then_eq_Inr: "(and_then r f = Inr y) = (\<exists>v. r = Inr v \<and> f v = Inr y)"
  by (cases r) simp_all

subsection \<open>The mandatory credential\<close>

text \<open>
  C3. When \<^verbatim>\<open>SWARMS_API_KEY\<close> is missing or empty, the run ends with
  \<^verbatim>\<open>{success: false, error: "SWARMS_API_KEY is required"}\<close> and has made no outbound
  call at all.
\<close>

theorem missing_key_fails_before_any_call:
  assumes "\<not> configured (SWARMS_API_KEY e)"
  shows "handle_stock_analysis rt e up =
           (Inr (JObj [(''success'', JBool False),
                       (''error'', JStr ''SWARMS_API_KEY is required'')]), [])"
  using assms by (simp add: handle_stock_analysis_def handle_stock_analysis_try_def)

theorem missing_key_witness:
  "\<not> configured (SWARMS_API_KEY env_no_key) \<and>
   handle_stock_analysis sample_runtime env_no_key upstream_down =
     (Inr (JObj [(''success'', JBool False),
                 (''error'', JStr ''SWARMS_API_KEY is required'')]), [])"
proof -
  have h: "\<not> configured (SWARMS_API_KEY env_no_key)"
    by (simp add: env_no_key_def configured_def)
  from h missing_key_fails_before_any_call [OF h] show ?thesis by simp
qed

subsection \<open>Routing\<close>

lemma takeWhile_stops:
  "\<forall>x\<in>set xs. P x \<Longrightarrow> ys = [] \<or> \<not> P (hd ys) \<Longrightarrow> takeWhile P (xs @ ys) = xs"
  by (induction xs) (auto simp: takeWhile_eq_Nil_iff)

text \<open>The router looks at the last segment only: the text between the last slash and the query.\<close>

lemma request_path_segment:
  assumes "CHR ''/'' \<notin> set seg" and "CHR ''?'' \<notin> set (base @ seg)"
    and "query = [] \<or> hd query = CHR ''?''"
  shows "request_path (base @ ''/'' @ seg @ query) = seg"
proof -
  let ?pre = "base @ ''/'' @ seg"
  have cut: "takeWhile (\<lambda>c. c \<noteq> CHR ''?'') (?pre @ query) = ?pre"
    using assms(2,3) by (intro takeWhile_stops) auto
  have "takeWhile (\<lambda>c. c \<noteq> CHR ''/'') (rev seg @ ''/'' @ rev base) = rev seg"
    using assms(1) by (intro takeWhile_stops) auto
  then have "rev (takeWhile (\<lambda>c. c \<noteq> CHR ''/'') (rev ?pre)) = seg"
    by simp
  with cut show ?thesis
    by (simp add: request_path_def)
qed

text \<open>
  C6, as stated, fails: the request for \<^verbatim>\<open>/api/status\<close>, a path that is none of
  \<^verbatim>\<open>/\<close>, \<^verbatim>\<open>/trigger\<close>, \<^verbatim>\<open>/status\<close>, is answered with status 200, because its last
  segment is \<^verbatim>\<open>status\<close>.
\<close>

theorem nested_status_path_counterexample:
  "url_pathname ''https://example.com/api/status'' = ''/api/status''
   \<and> ''/api/status'' \<notin> {''/'', ''/trigger'', ''/status''}
   \<and> resp_status (fst (on_fetch sample_runtime env_no_key upstream_down
                          ''https://example.com/api/status'')) = 200"
  by (simp add: url_pathname_def on_fetch_def request_path_def)

text \<open>
  C6, amended: a request whose last path segment is neither empty, nor \<^verbatim>\<open>trigger\<close>, nor
  \<^verbatim>\<open>status\<close> is answered with the plain text \<^verbatim>\<open>Not Found\<close> and status 404, and no
  outbound call is made.
\<close>

theorem unknown_segment_not_found:
  assumes "CHR ''/'' \<notin> set seg" and "CHR ''?'' \<notin> set (base @ seg)"
    and "query = [] \<or> hd query = CHR ''?''"
    and "seg \<notin> {[], ''trigger'', ''status''}"
  shows "on_fetch rt e up (base @ ''/'' @ seg @ query) =
           (\<lparr>resp_body = ''Not Found'', resp_status = 404, resp_headers = []\<rparr>, [])"
proof -
  have "request_path (base @ ''/'' @ seg @ query) = seg"
    using assms(1-3) by (rule request_path_segment)
  with assms(4) show ?thesis
    by (simp add: on_fetch_def)
qed

theorem unknown_segment_witness:
  "CHR ''/'' \<notin> set ''favicon.ico'' \<and> CHR ''?'' \<notin> set (''https://example.com'' @ ''favicon.ico'')
   \<and> hd ''?v=1'' = CHR ''?'' \<and> ''favicon.ico'' \<notin> {[], ''trigger'', ''status''}
   \<and> on_fetch sample_runtime env_no_key upstream_down ''https://example.com/favicon.ico?v=1'' =
       (\<lparr>resp_body = ''Not Found'', resp_status = 404, resp_headers = []\<rparr>, [])"
  using unknown_segment_not_found [of "''favicon.ico''" "''https://example.com''" "''?v=1''"
      sample_runtime env_no_key upstream_down]
  by simp

subsection \<open>News Fetcher\<close>

lemma map_exn_Inr:
  "map_exn f xs = Inr ys \<Longrightarrow> list_all2 (\<lambda>x y. f x = Inr y) xs ys"
  by (induction xs arbitrary: ys) (auto split: sum.splits)

lemma list_all2_right:
  "list_all2 P xs ys \<Longrightarrow> (\<And>x y. P x y \<Longrightarrow> Q y) \<Longrightarrow> list_all Q ys"
  by (induction rule: list_all2_induct) auto

lemma sublist_unavailable_prefix: "sublist ''unavailable'' (''Market news unavailable: '' @ m)"
proof -
  have "''Market news unavailable: '' @ m = ''Market news '' @ ''unavailable'' @ ('': '' @ m)"
    by simp
  then show ?thesis
    by (simp only: sublist_appendI)
qed

lemma news_failure_unavailable: "sublist ''unavailable'' (news_failure rt error)"
  using sublist_unavailable_prefix
  by (simp add: news_failure_def del: sublist_unavailable_prefix)

lemma process_article_shape:
  assumes "process_article article = Inr a"
  shows "is_news_article a \<and> text_rule article a"
proof -
  from assms obtain d where d: "article = JObj d"
    by (cases article) (simp_all add: process_article_def)
  show ?thesis
  proof (cases "truthy (dict_get d ''text'' JNull)")
    case False
    with assms d show ?thesis
      by (auto simp: process_article_def text_rule_def article_text_def dict_get_def)
  next
    case True
    then obtain v where v: "map_of d ''text'' = Some v" "truthy v"
      by (auto simp: dict_get_def split: option.splits)
    with assms d True obtain u where "v = JStr u"
      by (cases v) (auto simp: process_article_def dict_get_def)
    with assms d True v show ?thesis
      by (auto simp: process_article_def text_rule_def article_text_def dict_get_def suffix_def)
  qed
qed

lemma news_of_payload_contract:
  assumes "news_of_payload news_data = Inr v"
  shows "news_contract v"
proof (cases news_data)
  case (JList xs)
  show ?thesis
  proof (cases "xs = []")
    case True
    with JList assms show ?thesis
      by (auto simp: news_of_payload_def sublist_code)
  next
    case False
    with JList assms obtain arts where arts: "map_exn process_article (take 5 xs) = Inr arts"
      and v: "v = JList arts"
      by (auto simp: news_of_payload_def and_then_eq_Inr)
    from arts have rel: "list_all2 (\<lambda>x y. process_article x = Inr y) (take 5 xs) arts"
      by (rule map_exn_Inr)
    then have "length (take 5 xs) = length arts"
      by (rule list_all2_lengthD)
    then have "length arts \<le> 5"
      by simp
    moreover from rel have "list_all is_news_article arts"
      by (rule list_all2_right) (simp add: process_article_shape)
    ultimately show ?thesis
      using v by simp
  qed
qed (use assms in \<open>auto simp: news_of_payload_def sublist_code\<close>)

lemma news_of_payload_texts:
  assumes "news_of_payload news_data = Inr (JList arts)"
  shows "\<exists>xs. news_data = JList xs \<and> list_all2 text_rule (take 5 xs) arts"
proof (cases news_data)
  case (JList xs)
  with assms have "map_exn process_article (take 5 xs) = Inr arts"
    by (auto simp: news_of_payload_def and_then_eq_Inr split: if_splits)
  then have "list_all2 (\<lambda>x y. process_article x = Inr y) (take 5 xs) arts"
    by (rule map_exn_Inr)
  then have "list_all2 text_rule (take 5 xs) arts"
    by (rule list_all2_mono) (simp add: process_article_shape)
  with JList show ?thesis
    by simp
qed (use assms in \<open>auto simp: news_of_payload_def\<close>)

text \<open>
  C4. Whatever the environment holds and whatever the news provider does (no key, a
  failed request, any status, a body that does not decode, any decoded value),
  \<^verbatim>\<open>fetch_market_news\<close> returns, and returns a list of at most five news articles or a
  text that contains \<^verbatim>\<open>unavailable\<close>.
\<close>

theorem fetch_market_news_never_raises:
  "\<exists>v. fst (fetch_market_news rt e up) = Inr v \<and> news_contract v"
proof (cases "fst (fetch_market_news_try e up)")
  case (Inl error)
  then have "fst (fetch_market_news rt e up) = Inr (JStr (news_failure rt error))"
    by (cases "fetch_market_news_try e up") (simp add: fetch_market_news_def)
  then show ?thesis
    by (simp add: news_failure_unavailable)
next
  case (Inr v)
  then have same: "fst (fetch_market_news rt e up) = Inr v"
    by (cases "fetch_market_news_try e up") (simp add: fetch_market_news_def)
  have "news_contract v"
  proof (cases "configured (FMP_API_KEY e)")
    case False
    with Inr show ?thesis
      by (auto simp: fetch_market_news_try_def sublist_code)
  next
    case True
    with Inr obtain response news_data where "news_of_payload news_data = Inr v"
      by (auto simp: fetch_market_news_try_def and_then_eq_Inr split: if_splits)
    then show ?thesis
      by (rule news_of_payload_contract)
  qed
  with same show ?thesis
    by simp
qed

theorem fetch_market_news_forbidden_witness:
  "fst (fetch_market_news sample_runtime sample_env
          (upstream_down\<lparr>news_api := (\<lambda>key. Inr (http_error 403 ''Forbidden''))\<rparr>)) =
     Inr (JStr ''Market news unavailable: Access forbidden. Please check your FMP_API_KEY is valid and not rate-limited.'')"
  using fetch_market_news_never_raises [of sample_runtime sample_env
      "upstream_down\<lparr>news_api := (\<lambda>key. Inr (http_error 403 ''Forbidden''))\<rparr>"]
  by (simp add: fetch_market_news_def fetch_market_news_try_def sample_env_def configured_def
      upstream_down_def http_error_def news_error_details_def news_failure_def str_int_def
      digit_def sublist_code)

text \<open>
  C10. When \<^verbatim>\<open>fetch_market_news\<close> returns articles, they are made one by one from the
  first five articles of the provider, and the \<^verbatim>\<open>text\<close> of each is at most 303
  characters long; it is the first 300 characters of the provider's text followed by
  \<^verbatim>\<open>...\<close> when that text is a non-empty string (also when nothing was cut), and
  \<^verbatim>\<open>No content available\<close> when it is empty or missing.
\<close>

theorem article_text_bounded:
  assumes "fst (fetch_market_news rt e up) = Inr (JList arts)"
  shows "\<exists>response news_data.
           news_api up (the (FMP_API_KEY e)) = Inr response
           \<and> json_body response = Inr (JList news_data)
           \<and> list_all2 text_rule (take 5 news_data) arts"
proof -
  from assms have body: "fst (fetch_market_news_try e up) = Inr (JList arts)"
    by (cases "fetch_market_news_try e up") (auto simp: fetch_market_news_def split: sum.splits)
  then have key: "configured (FMP_API_KEY e)"
    by (auto simp: fetch_market_news_try_def split: if_splits)
  with body obtain response news_data where
    r: "news_api up (the (FMP_API_KEY e)) = Inr response"
    and b: "json_body response = Inr news_data"
    and p: "news_of_payload news_data = Inr (JList arts)"
    by (auto simp: fetch_market_news_try_def and_then_eq_Inr split: if_splits)
  from p obtain xs where "news_data = JList xs" "list_all2 text_rule (take 5 xs) arts"
    using news_of_payload_texts by blast
  with r b show ?thesis
    by auto
qed

theorem article_text_witness:
  "fst (fetch_market_news sample_runtime sample_env upstream_with_news) =
     Inr (JList [JObj [(''title'', JStr ''Rates on hold''),
                       (''text'', JStr ''The bank held rates....''),
                       (''publishedDate'', JStr ''Unknown date''),
                       (''symbol'', JStr ''AAPL''),
                       (''url'', JStr ''#'')],
                 JObj [(''title'', JStr ''Chip demand''),
                       (''text'', JStr ''No content available''),
                       (''publishedDate'', JStr ''Unknown date''),
                       (''symbol'', JStr ''N/A''),
                       (''url'', JStr ''https://n.example/2'')]])
   \<and> list_all2 text_rule (take 5 sample_news)
        [JObj [(''title'', JStr ''Rates on hold''),
               (''text'', JStr ''The bank held rates....''),
               (''publishedDate'', JStr ''Unknown date''),
               (''symbol'', JStr ''AAPL''),
               (''url'', JStr ''#'')],
         JObj [(''title'', JStr ''Chip demand''),
               (''text'', JStr ''No content available''),
               (''publishedDate'', JStr ''Unknown date''),
               (''symbol'', JStr ''N/A''),
               (''url'', JStr ''https://n.example/2'')]]"
proof -
  have run: "fst (fetch_market_news sample_runtime sample_env upstream_with_news) =
     Inr (JList [JObj [(''title'', JStr ''Rates on hold''),
                       (''text'', JStr ''The bank held rates....''),
                       (''publishedDate'', JStr ''Unknown date''),
                       (''symbol'', JStr ''AAPL''),
                       (''url'', JStr ''#'')],
                 JObj [(''title'', JStr ''Chip demand''),
                       (''text'', JStr ''No content available''),
                       (''publishedDate'', JStr ''Unknown date''),
                       (''symbol'', JStr ''N/A''),
                       (''url'', JStr ''https://n.example/2'')]])"
    by (simp add: fetch_market_news_def fetch_market_news_try_def sample_env_def configured_def
        upstream_with_news_def upstream_down_def http_ok_def news_of_payload_def sample_news_def
        process_article_def dict_get_def)
  from article_text_bounded [OF run] have
    "list_all2 text_rule (take 5 sample_news)
        [JObj [(''title'', JStr ''Rates on hold''),
               (''text'', JStr ''The bank held rates....''),
               (''publishedDate'', JStr ''Unknown date''),
               (''symbol'', JStr ''AAPL''),
               (''url'', JStr ''#'')],
         JObj [(''title'', JStr ''Chip demand''),
               (''text'', JStr ''No content available''),
               (''publishedDate'', JStr ''Unknown date''),
               (''symbol'', JStr ''N/A''),
               (''url'', JStr ''https://n.example/2'')]]"
    by (simp add: sample_env_def upstream_with_news_def upstream_down_def http_ok_def)
  with run show ?thesis
    by simp
qed

subsection \<open>Quote Fetcher\<close>

text \<open>
  The loop stores one entry per symbol, in the order of the list, and makes one request per
  symbol, whatever the provider answers.
\<close>

lemma update_fresh: "k \<notin> fst ` set al \<Longrightarrow> AList.update k v al = al @ [(k, v)]"
  by (induction al) auto

lemma fetch_loop_eq:
  assumes "distinct ss" and "set ss \<inter> fst ` set market_data = {}"
  shows "fetch_loop rt up ss (market_data, calls) =
           (market_data @ map (\<lambda>s. (s, fetch_quote rt up s)) ss, calls @ map QuoteCall ss)"
  using assms
proof (induction ss arbitrary: market_data calls)
  case Nil
  then show ?case by simp
next
  case (Cons s ss)
  from Cons.prems have fresh: "s \<notin> fst ` set market_data"
    by auto
  from Cons.prems have "set ss \<inter> fst ` set (market_data @ [(s, fetch_quote rt up s)]) = {}"
    by auto
  with Cons.IH [of "market_data @ [(s, fetch_quote rt up s)]" "calls @ [QuoteCall s]"] Cons.prems
  show ?case
    by (simp add: update_fresh [OF fresh])
qed

lemma fetch_market_data_eq:
  "fetch_market_data rt up =
     (map (\<lambda>s. (s, fetch_quote rt up s)) symbols, map QuoteCall symbols)"
proof -
  have "distinct symbols"
    by (simp add: symbols_def)
  then show ?thesis
    unfolding fetch_market_data_def by (subst fetch_loop_eq) simp_all
qed

lemma fetch_market_data_covers_symbols:
  "map fst (fst (fetch_market_data rt up)) = symbols"
  by (simp add: fetch_market_data_eq comp_def)






lemma sample_quote_fetched:
  "fetch_quote sample_runtime upstream_spy_only ''SPY'' = sample_quote"
  by (simp add: fetch_quote_def fetch_quote_try_def upstream_spy_only_def upstream_down_def
      http_ok_def sample_chart_def quote_of_payload_def quote_of_result_def latest_bar_def
      make_quote_def bar_value_def dict_get_def in_range_def py_sub_def py_truediv_def
      py_mul_def py_round2_def round_half_even_def Let_def sample_runtime_def sample_quote_def)

lemma failed_quote_fetched:
  "symbol \<noteq> ''SPY'' \<Longrightarrow>
   fetch_quote sample_runtime upstream_spy_only symbol =
     [(''error'', JStr ''Failed to fetch data: HTTP 404: Not Found'')]"
  by (simp add: fetch_quote_def fetch_quote_try_def upstream_spy_only_def upstream_down_def
      http_error_def str_int_def digit_def)

text \<open>
  C1. The mapping has one entry per symbol (\<open>fetch_market_data_covers_symbols\<close>), but
  an entry can break the invariant: the loop skips a bar whose \<^verbatim>\<open>close\<close> is
  \<^verbatim>\<open>None\<close> and does not look at the other four series, so a bar with a close and
  without an open gives an entry with \<^verbatim>\<open>open: None\<close> and \<^verbatim>\<open>error: None\<close>.
\<close>

theorem null_open_in_successful_quote:
  "(''SPY'', sample_quote) \<in> set (fst (fetch_market_data sample_runtime upstream_spy_only))
   \<and> map_of sample_quote ''open'' = Some JNull
   \<and> map_of sample_quote ''error'' = Some JNull
   \<and> \<not> ticker_quote_invariant sample_quote"
  by (simp add: fetch_market_data_eq symbols_def sample_quote_fetched)
     (simp add: sample_quote_def ticker_quote_invariant_def populated_def price_fields_def)




end
